theory Spec2Isabelle
  imports Main "HOL-Library.AList" "HOL-Library.Char_ord" "HOL-Library.List_Lexorder"
begin

section \<open>Python values and exceptions\<close>

text \<open>
  The program is Python. Values that reach the validated code are dynamically typed, so
  they are modelled by one datatype of runtime values. \<open>PObj\<close> stands for an object of
  any other class (for instance a bound method); it is truthy, is an instance of none of
  \<open>str\<close>, \<open>int\<close>, \<open>bool\<close>, \<open>list\<close>, \<open>tuple\<close>, \<open>dict\<close>, and the JSON encoder refuses it.
  A dict is an association list in insertion order with string keys.
\<close>

datatype pyval =
    PNone
  | PBool bool
  | PInt int
  | PStr string
  | PList "pyval list"
  | PTuple "pyval list"
  | PDict "(string \<times> pyval) list"
  | PObj string

text \<open>
  Every exception raised by the modelled code is an instance of \<open>Exception\<close>: a class
  and the message given to its constructor.
\<close>

datatype exn_class =
    TypeError | ValueError | AttributeError | FileNotFoundError | OSError
  | JSONDecodeError | OtherError

datatype exn = Exn exn_class string

type_synonym 'a result = "exn + 'a"

text \<open>\<open>isinstance(v, int)\<close>: \<open>bool\<close> is a subclass of \<open>int\<close> in Python.\<close>

fun isinstance_int :: "pyval \<Rightarrow> bool" where
  "isinstance_int (PInt i) = True"
| "isinstance_int (PBool b) = True"
| "isinstance_int v = False"

fun isinstance_bool :: "pyval \<Rightarrow> bool" where
  "isinstance_bool (PBool b) = True"
| "isinstance_bool v = False"

fun isinstance_str :: "pyval \<Rightarrow> bool" where
  "isinstance_str (PStr s) = True"
| "isinstance_str v = False"

fun isinstance_list :: "pyval \<Rightarrow> bool" where
  "isinstance_list (PList xs) = True"
| "isinstance_list v = False"

fun isinstance_tuple :: "pyval \<Rightarrow> bool" where
  "isinstance_tuple (PTuple xs) = True"
| "isinstance_tuple v = False"

text \<open>The integer an \<open>int\<close> instance compares as (\<open>True\<close> is 1, \<open>False\<close> is 0).\<close>

fun int_value :: "pyval \<Rightarrow> int" where
  "int_value (PInt i) = i"
| "int_value (PBool b) = (if b then 1 else 0)"
| "int_value v = 0"

text \<open>Truth value testing, as \<open>if v:\<close> and \<open>not v\<close> do it.\<close>

fun truthy :: "pyval \<Rightarrow> bool" where
  "truthy PNone = False"
| "truthy (PBool b) = b"
| "truthy (PInt i) = (i \<noteq> 0)"
| "truthy (PStr s) = (s \<noteq> [])"
| "truthy (PList xs) = (xs \<noteq> [])"
| "truthy (PTuple xs) = (xs \<noteq> [])"
| "truthy (PDict kvs) = (kvs \<noteq> [])"
| "truthy (PObj c) = True"

section \<open>Validation of API calls (app.py)\<close>

text \<open>
  \<open>ApiCall\<close> belongs to the external library; the validator only reads these attributes,
  each of which may hold any runtime value. The attribute \<open>method\<close> is the field
  \<open>method_name\<close>.
\<close>

record ApiCall =
  api_type :: pyval
  method_name :: pyval
  pwron :: pyval
  args :: pyval
  expected_response :: pyval
  user_check :: pyval
  timeout_multiple :: pyval

text \<open>\<open>App.validate_api_call\<close>: the checks in source order, the first failing one raises.\<close>

definition validate_api_call :: "ApiCall \<Rightarrow> unit result" where
  "validate_api_call api_call =
    (if \<not> (api_type api_call = PStr ''UIC'' \<or> api_type api_call = PStr ''CPM'') then
       Inl (Exn ValueError ''API type not supported.'')
     else if \<not> truthy (method_name api_call) then
       Inl (Exn ValueError ''No method specified.'')
     else if \<not> isinstance_list (args api_call) then
       Inl (Exn TypeError ''args is not a list.'')
     else if \<not> isinstance_bool (pwron api_call) then
       Inl (Exn TypeError ''pwron is not a boolean.'')
     else if \<not> isinstance_bool (user_check api_call) then
       Inl (Exn TypeError ''user_check is not a boolean.'')
     else if \<not> isinstance_int (timeout_multiple api_call) then
       Inl (Exn TypeError ''timeout_multiple is not an integer.'')
     else if int_value (timeout_multiple api_call) > 5 then
       Inl (Exn ValueError ''timeout_multiple is too high.'')
     else Inr ())"

text \<open>
  The loop of \<open>validate_api_call_arguments\<close> over the elements of a \<open>dec_arr\<close> value:
  the first element that is not an \<open>int\<close> instance raises.
\<close>

fun check_dec_arr :: "pyval list \<Rightarrow> unit result" where
  "check_dec_arr [] = Inr ()"
| "check_dec_arr (v # vs) =
    (if \<not> isinstance_int v then
       Inl (Exn TypeError ''Argument value is not a list of integers.'')
     else check_dec_arr vs)"

text \<open>
  \<open>App.validate_api_call_arguments\<close>. After the length check the tuple has exactly three
  elements, so \<open>args[0]\<close>, \<open>args[1]\<close> and \<open>args[2]\<close> are the three pattern variables. The
  four trailing \<open>if\<close> statements of the source are independent; since the declared type is
  one string, at most one of them applies.
\<close>

fun validate_api_call_arguments :: "pyval \<Rightarrow> unit result" where
  "validate_api_call_arguments (PTuple [a0, a1, a2]) =
    (if \<not> isinstance_str a0 then
       Inl (Exn TypeError ''Argument name is not a string.'')
     else if \<not> truthy a0 then
       Inl (Exn ValueError ''Argument name cannot be empty.'')
     else if \<not> isinstance_str a2 then
       Inl (Exn TypeError ''Argument type is not a string.'')
     else if \<not> (a2 = PStr ''str'' \<or> a2 = PStr ''dec'' \<or> a2 = PStr ''cdata''
                \<or> a2 = PStr ''dec_arr'') then
       Inl (Exn ValueError ''Argument type not supported.'')
     else if \<not> (isinstance_str a1 \<or> isinstance_int a1 \<or> isinstance_list a1) then
       Inl (Exn TypeError ''Argument value is not a string, int, or list.'')
     else if a2 = PStr ''dec_arr'' then
       (case a1 of
          PList vs \<Rightarrow> check_dec_arr vs
        | _ \<Rightarrow> Inl (Exn TypeError ''Argument value is not a list.''))
     else if a2 = PStr ''dec'' then
       (if \<not> isinstance_int a1 then
          Inl (Exn TypeError ''Argument value is not an integer.'')
        else Inr ())
     else if a2 = PStr ''str'' then
       (if \<not> isinstance_str a1 then
          Inl (Exn TypeError ''Argument value is not a string.'')
        else Inr ())
     else
       (if \<not> isinstance_str a1 then
          Inl (Exn TypeError ''Argument value is not a string.'')
        else Inr ()))"
| "validate_api_call_arguments (PTuple vs) =
     Inl (Exn ValueError ''args is not a list of tuples of length 3.'')"
| "validate_api_call_arguments v =
     Inl (Exn TypeError ''args is not a list of tuples.'')"

text \<open>
  The conditions the specification lists for an accepted argument, written from its
  words: the value's runtime shape agrees with the declared type.
\<close>

definition spec_shape_matches :: "string \<Rightarrow> pyval \<Rightarrow> bool" where
  "spec_shape_matches t v =
    (if t = ''dec'' then isinstance_int v
     else if t = ''str'' \<or> t = ''cdata'' then isinstance_str v
     else if t = ''dec_arr'' then (case v of PList vs \<Rightarrow> list_all isinstance_int vs | _ \<Rightarrow> False)
     else False)"

definition spec_argument_ok :: "pyval \<Rightarrow> bool" where
  "spec_argument_ok a =
    (case a of
       PTuple [PStr n, v, PStr t] \<Rightarrow>
         n \<noteq> [] \<and> t \<in> {''str'', ''dec'', ''cdata'', ''dec_arr''} \<and> spec_shape_matches t v
     | _ \<Rightarrow> False)"

text \<open>The other fields of a call, as the specification's \<open>validate_call\<close> lists them.\<close>

definition spec_other_fields_ok :: "ApiCall \<Rightarrow> bool" where
  "spec_other_fields_ok c =
    ((api_type c = PStr ''UIC'' \<or> api_type c = PStr ''CPM'') \<and> truthy (method_name c)
     \<and> isinstance_list (args c) \<and> isinstance_bool (pwron c) \<and> isinstance_bool (user_check c))"

section \<open>Settings store (settings.py)\<close>

text \<open>
  \<open>Host\<close> is a \<open>NamedTuple\<close> with the fields \<open>name\<close>, \<open>host\<close>, \<open>port\<close>; the annotations
  are not enforced at run time, so a field holds any value.
\<close>

datatype Host = Host (name: pyval) (host: pyval) (port: pyval)

text \<open>
  What \<open>open(SETTINGS_FILE)\<close> followed by \<open>json.load\<close> meets: no file; JSON text denoting a
  value; text the decoder rejects with the given message; a file that cannot be opened
  (an \<open>OSError\<close> other than \<open>FileNotFoundError\<close>) with the given message.
\<close>

datatype file_state = Missing | Holds pyval | Malformed string | Unreadable string

text \<open>
  The state outside a \<open>Settings\<close> instance: the module-level dict \<open>DEFAULT_SETTINGS\<close>
  (a mutable object, created once at import), the settings file, and whether the file can
  be opened for writing.
\<close>

record world =
  DEFAULT_SETTINGS :: pyval
  settings_file :: file_state
  writable :: bool

text \<open>The dict literal bound to \<open>DEFAULT_SETTINGS\<close> at import.\<close>

definition DEFAULT_SETTINGS_literal :: pyval where
  "DEFAULT_SETTINGS_literal =
    PDict [(''hosts'', PList [PDict [(''name'', PStr ''Speaker''),
                                     (''host'', PStr ''192.168.1.100''),
                                     (''port'', PInt 55001)]]),
           (''loglevel'', PInt 1),
           (''default_host'', PInt 0)]"

definition at_import :: "file_state \<Rightarrow> bool \<Rightarrow> world" where
  "at_import f wr = \<lparr>DEFAULT_SETTINGS = DEFAULT_SETTINGS_literal, settings_file = f, writable = wr\<rparr>"

text \<open>
  The attribute \<open>_settings\<close> of a \<open>Settings\<close> instance refers either to the module's
  \<open>DEFAULT_SETTINGS\<close> object (after \<open>self._settings = DEFAULT_SETTINGS\<close>, which copies
  nothing) or to a dict of the instance's own.
\<close>

datatype Settings = SharedDefault | Own pyval

definition Settings_init :: Settings where
  "Settings_init = Own (PDict [])"

definition current :: "world \<Rightarrow> Settings \<Rightarrow> pyval" where
  "current w s = (case s of SharedDefault \<Rightarrow> DEFAULT_SETTINGS w | Own d \<Rightarrow> d)"

definition mutate :: "pyval \<Rightarrow> world \<Rightarrow> Settings \<Rightarrow> world \<times> Settings" where
  "mutate d w s = (case s of SharedDefault \<Rightarrow> (w\<lparr>DEFAULT_SETTINGS := d\<rparr>, s) | Own d0 \<Rightarrow> (w, Own d))"

definition load_settings :: "world \<Rightarrow> Settings \<Rightarrow> Settings" where
  "load_settings w s =
    (case settings_file w of
       Holds v \<Rightarrow> Own v
     | Missing \<Rightarrow> SharedDefault
     | Malformed msg \<Rightarrow> Own (PDict [(''ERROR'', PStr msg)])
     | Unreadable msg \<Rightarrow> Own (PDict [(''ERROR'', PStr msg)]))"

text \<open>
  \<open>json.dump\<close>: the encoder accepts \<open>None\<close>, booleans, integers, strings, lists, tuples
  and dicts of such values, and raises \<open>TypeError\<close> at any other object.
\<close>

fun json_ok :: "pyval \<Rightarrow> bool"
  and json_ok_list :: "pyval list \<Rightarrow> bool"
  and json_ok_items :: "(string \<times> pyval) list \<Rightarrow> bool" where
  "json_ok PNone = True"
| "json_ok (PBool b) = True"
| "json_ok (PInt i) = True"
| "json_ok (PStr s) = True"
| "json_ok (PList xs) = json_ok_list xs"
| "json_ok (PTuple xs) = json_ok_list xs"
| "json_ok (PDict kvs) = json_ok_items kvs"
| "json_ok (PObj c) = False"
| "json_ok_list [] = True"
| "json_ok_list (x # xs) = (json_ok x \<and> json_ok_list xs)"
| "json_ok_items [] = True"
| "json_ok_items (kv # kvs) = (json_ok (snd kv) \<and> json_ok_items kvs)"

text \<open>
  The value that the written text denotes: tuples are written as arrays, and with
  \<open>sort_keys=True\<close> the members of every object are written in key order.
\<close>

fun json_value :: "pyval \<Rightarrow> pyval"
  and json_value_list :: "pyval list \<Rightarrow> pyval list"
  and json_value_items :: "(string \<times> pyval) list \<Rightarrow> (string \<times> pyval) list" where
  "json_value (PList xs) = PList (json_value_list xs)"
| "json_value (PTuple xs) = PList (json_value_list xs)"
| "json_value (PDict kvs) = PDict (sort_key fst (json_value_items kvs))"
| "json_value PNone = PNone"
| "json_value (PBool b) = PBool b"
| "json_value (PInt i) = PInt i"
| "json_value (PStr s) = PStr s"
| "json_value (PObj c) = PObj c"
| "json_value_list [] = []"
| "json_value_list (x # xs) = json_value x # json_value_list xs"
| "json_value_items [] = []"
| "json_value_items (kv # kvs) = (fst kv, json_value (snd kv)) # json_value_items kvs"

text \<open>
  \<open>Settings.save_settings\<close>. \<open>open(SETTINGS_FILE, "w")\<close> raises when the file cannot be
  opened for writing and otherwise truncates it. \<open>json.dump\<close> writes the text piece by
  piece, so when the encoder raises, the file is left holding a truncated text, which the
  decoder rejects (its message is given here without the position).
\<close>

definition save_settings :: "world \<Rightarrow> Settings \<Rightarrow> unit result \<times> world" where
  "save_settings w s =
    (if \<not> writable w then (Inl (Exn OSError ''Permission denied''), w)
     else if json_ok (current w s) then
       (Inr (), w\<lparr>settings_file := Holds (json_value (current w s))\<rparr>)
     else
       (Inl (Exn TypeError ''Object is not JSON serializable''),
        w\<lparr>settings_file := Malformed ''Expecting value''\<rparr>))"

text \<open>\<open>d.get(key, default)\<close>; only a dict has the method.\<close>

definition dict_get :: "pyval \<Rightarrow> string \<Rightarrow> pyval \<Rightarrow> pyval result" where
  "dict_get d k dflt =
    (case d of
       PDict kvs \<Rightarrow> Inr (case map_of kvs k of Some v \<Rightarrow> v | None \<Rightarrow> dflt)
     | _ \<Rightarrow> Inl (Exn AttributeError ''object has no attribute get''))"

text \<open>
  \<open>d[key] = v\<close> with a string key: a dict replaces the value of a present key in place and
  appends an absent one; every other value of the model raises \<open>TypeError\<close>.
\<close>

definition dict_setitem :: "pyval \<Rightarrow> string \<Rightarrow> pyval \<Rightarrow> pyval result" where
  "dict_setitem d k v =
    (case d of
       PDict kvs \<Rightarrow> Inr (PDict (AList.update k v kvs))
     | _ \<Rightarrow> Inl (Exn TypeError ''object does not support item assignment''))"

text \<open>The property \<open>error\<close>.\<close>

definition error :: "world \<Rightarrow> Settings \<Rightarrow> pyval result" where
  "error w s = dict_get (current w s) ''ERROR'' PNone"

text \<open>
  \<open>Host(**host)\<close>: the argument must be a mapping whose keys are exactly the three field
  names; anything else raises \<open>TypeError\<close>.
\<close>

definition make_Host :: "pyval \<Rightarrow> Host result" where
  "make_Host v =
    (case v of
       PDict kvs \<Rightarrow>
         (case (map_of kvs ''name'', map_of kvs ''host'', map_of kvs ''port'') of
            (Some n, Some h, Some p) \<Rightarrow>
              (if list_all (\<lambda>kv. fst kv = ''name'' \<or> fst kv = ''host'' \<or> fst kv = ''port'') kvs
               then Inr (Host n h p)
               else Inl (Exn TypeError ''got an unexpected keyword argument''))
          | _ \<Rightarrow> Inl (Exn TypeError ''missing required argument''))
     | _ \<Rightarrow> Inl (Exn TypeError ''argument after ** must be a mapping''))"

text \<open>What a \<open>for\<close> clause iterates over: the elements of a sequence, the keys of a dict.\<close>

definition iterate :: "pyval \<Rightarrow> pyval list result" where
  "iterate v =
    (case v of
       PList xs \<Rightarrow> Inr xs
     | PTuple xs \<Rightarrow> Inr xs
     | PStr cs \<Rightarrow> Inr (map (\<lambda>c. PStr [c]) cs)
     | PDict kvs \<Rightarrow> Inr (map (\<lambda>kv. PStr (fst kv)) kvs)
     | _ \<Rightarrow> Inl (Exn TypeError ''object is not iterable''))"

fun make_Hosts :: "pyval list \<Rightarrow> Host list result" where
  "make_Hosts [] = Inr []"
| "make_Hosts (v # vs) =
    (case make_Host v of
       Inl e \<Rightarrow> Inl e
     | Inr h \<Rightarrow> (case make_Hosts vs of Inl e \<Rightarrow> Inl e | Inr hs \<Rightarrow> Inr (h # hs)))"

text \<open>The property \<open>hosts\<close>: \<open>[Host(**host) for host in self._settings.get("hosts", [])]\<close>.\<close>

definition hosts :: "world \<Rightarrow> Settings \<Rightarrow> Host list result" where
  "hosts w s =
    (case dict_get (current w s) ''hosts'' (PList []) of
       Inl e \<Rightarrow> Inl e
     | Inr v \<Rightarrow> (case iterate v of Inl e \<Rightarrow> Inl e | Inr vs \<Rightarrow> make_Hosts vs))"

text \<open>
  The setter of \<open>hosts\<close>. The source stores \<open>host._asdict\<close> for every host: the attribute
  is read and not called, so each element stored is a bound method object.
\<close>

definition set_hosts :: "Host list \<Rightarrow> world \<Rightarrow> Settings \<Rightarrow> unit result \<times> world \<times> Settings" where
  "set_hosts hs w s =
    (case dict_setitem (current w s) ''hosts'' (PList (map (\<lambda>h. PObj ''method'') hs)) of
       Inl e \<Rightarrow> (Inl e, w, s)
     | Inr d \<Rightarrow>
         (let (w1, s1) = mutate d w s;
              (r, w2) = save_settings w1 s1
          in (r, w2, s1)))"

text \<open>The property \<open>default_host\<close> and its setter.\<close>

definition default_host :: "world \<Rightarrow> Settings \<Rightarrow> pyval result" where
  "default_host w s = dict_get (current w s) ''default_host'' (PInt 0)"

definition set_default_host ::
  "pyval \<Rightarrow> world \<Rightarrow> Settings \<Rightarrow> unit result \<times> world \<times> Settings" where
  "set_default_host v w s =
    (if \<not> isinstance_int v then
       (Inl (Exn TypeError ''Default host must be an integer''), w, s)
     else if int_value v < 0 then
       (Inl (Exn ValueError ''Default host must be one of the hosts''), w, s)
     else
       (case hosts w s of
          Inl e \<Rightarrow> (Inl e, w, s)
        | Inr hs \<Rightarrow>
            (if int_value v \<ge> int (length hs) then
               (Inl (Exn ValueError ''Default host must be one of the hosts''), w, s)
             else
               (case dict_setitem (current w s) ''default_host'' v of
                  Inl e \<Rightarrow> (Inl e, w, s)
                | Inr d \<Rightarrow>
                    (let (w1, s1) = mutate d w s;
                         (r, w2) = save_settings w1 s1
                     in (r, w2, s1))))))"

text \<open>The property \<open>loglevel\<close> and its setter.\<close>

definition loglevel :: "world \<Rightarrow> Settings \<Rightarrow> pyval result" where
  "loglevel w s = dict_get (current w s) ''loglevel'' (PInt 1)"

definition set_loglevel ::
  "pyval \<Rightarrow> world \<Rightarrow> Settings \<Rightarrow> unit result \<times> world \<times> Settings" where
  "set_loglevel v w s =
    (if \<not> isinstance_int v then
       (Inl (Exn TypeError ''loglevel must be an integer''), w, s)
     else if \<not> (-1 < int_value v \<and> int_value v < 5) then
       (Inl (Exn ValueError ''loglevel must be between 0 and 4''), w, s)
     else
       (case dict_setitem (current w s) ''loglevel'' v of
          Inl e \<Rightarrow> (Inl e, w, s)
        | Inr d \<Rightarrow>
            (let (w1, s1) = mutate d w s;
                 (r, w2) = save_settings w1 s1
             in (r, w2, s1))))"

section \<open>Application mediator (app.py)\<close>

text \<open>
  An instance attribute either does not exist yet or holds a value. The class body of
  \<open>App\<close> only annotates \<open>gui\<close>, \<open>aio_loop\<close>, \<open>speaker\<close> and \<open>events\<close>; an annotation
  without a value creates no attribute, so reading one of them before an assignment
  raises \<open>AttributeError\<close>.
\<close>

datatype 'a attr = Unset | Attr 'a

text \<open>The session handle of the external library, built by \<open>Speaker(ip, port)\<close>.\<close>

datatype Speaker = Speaker string int

text \<open>
  The mediator. An event is an opaque record of the external library, so its type is a
  parameter. Of the window only the calls of \<open>gui.events.new_event(event, trunc)\<close> are
  kept, in order. \<open>speaker\<close> holds a handle or \<open>None\<close> once it has been assigned.
\<close>

record 'ev App =
  settings :: Settings
  gui :: "('ev \<times> bool) list attr"
  speaker :: "Speaker option attr"
  events :: "'ev list attr"

text \<open>\<open>App.__init__\<close>: creates the settings and loads them; assigns nothing else.\<close>

definition App_init :: "world \<Rightarrow> 'ev App" where
  "App_init w =
    \<lparr>settings = load_settings w Settings_init, gui = Unset, speaker = Unset, events = Unset\<rparr>"

text \<open>
  What the external library does when the mediator calls it during a connect: each step
  returns (\<open>None\<close>) or raises the given exception.
\<close>

record session_script =
  construct :: "exn option"
  register_state :: "exn option"
  register_event :: "exn option"
  do_connect :: "exn option"
  do_update :: "exn option"
  client_disconnect :: "exn option"

text \<open>Statements run in order; the first that raises ends the block.\<close>

fun first_raised :: "exn option list \<Rightarrow> exn option" where
  "first_raised [] = None"
| "first_raised (None # rs) = first_raised rs"
| "first_raised (Some e # rs) = Some e"

text \<open>
  \<open>await self.speaker.client.disconnect()\<close>: reading \<open>self.speaker\<close> raises when the
  attribute does not exist, reading \<open>.client\<close> of \<open>None\<close> raises, and otherwise the library
  decides.
\<close>

definition await_client_disconnect :: "exn option \<Rightarrow> 'ev App \<Rightarrow> unit result" where
  "await_client_disconnect lib s =
    (case speaker s of
       Unset \<Rightarrow> Inl (Exn AttributeError ''App object has no attribute speaker'')
     | Attr None \<Rightarrow> Inl (Exn AttributeError ''NoneType object has no attribute client'')
     | Attr (Some h) \<Rightarrow> (case lib of Some e \<Rightarrow> Inl e | None \<Rightarrow> Inr ()))"

text \<open>
  \<open>with contextlib.suppress(Exception)\<close>: whatever the block raised, execution continues
  after it.
\<close>

definition suppress :: "unit result \<Rightarrow> unit result" where
  "suppress r = (case r of Inl e \<Rightarrow> Inr () | Inr u \<Rightarrow> Inr ())"

text \<open>
  The \<open>except Exception\<close> block of \<open>async_connect\<close>, entered with the exception \<open>e\<close>. The
  test \<open>if self.speaker\<close> reads the attribute (a handle is truthy, \<open>None\<close> is not); the bare
  \<open>raise\<close> at the end re-raises \<open>e\<close>.
\<close>

definition connect_failed :: "exn option \<Rightarrow> exn \<Rightarrow> 'ev App \<Rightarrow> unit result \<times> 'ev App" where
  "connect_failed lib e s =
    (case speaker s of
       Unset \<Rightarrow> (Inl (Exn AttributeError ''App object has no attribute speaker''), s)
     | Attr None \<Rightarrow> (Inl e, s)
     | Attr (Some h) \<Rightarrow>
         (case suppress (await_client_disconnect lib s) of
            Inl e' \<Rightarrow> (Inl e', s)
          | Inr u \<Rightarrow> (Inl e, s\<lparr>speaker := Attr None\<rparr>)))"

text \<open>
  \<open>App.async_connect\<close>. When the constructor raises, \<open>self.speaker\<close> has not been assigned
  by this call.
\<close>

definition async_connect ::
  "session_script \<Rightarrow> string \<Rightarrow> int \<Rightarrow> 'ev App \<Rightarrow> unit result \<times> 'ev App" where
  "async_connect lib ip tcp_port s =
    (case construct lib of
       Some e \<Rightarrow> connect_failed (client_disconnect lib) e s
     | None \<Rightarrow>
         (let s1 = s\<lparr>speaker := Attr (Some (Speaker ip tcp_port))\<rparr> in
          case first_raised [register_state lib, register_event lib, do_connect lib, do_update lib] of
            Some e \<Rightarrow> connect_failed (client_disconnect lib) e s1
          | None \<Rightarrow> (Inr (), s1)))"

text \<open>\<open>App.async_disconnect\<close>.\<close>

definition async_disconnect :: "exn option \<Rightarrow> 'ev App \<Rightarrow> unit result \<times> 'ev App" where
  "async_disconnect lib s =
    (case suppress (await_client_disconnect lib s) of
       Inl e \<Rightarrow> (Inl e, s)
     | Inr u \<Rightarrow> (Inr (), s\<lparr>speaker := Attr None\<rparr>))"

text \<open>
  The end of \<open>App.run\<close>, reached when \<open>await self.gui.show()\<close> has returned:
  \<open>if self.speaker: await self.async_disconnect()\<close>.
\<close>

definition run_after_show :: "exn option \<Rightarrow> 'ev App \<Rightarrow> unit result \<times> 'ev App" where
  "run_after_show lib s =
    (case speaker s of
       Unset \<Rightarrow> (Inl (Exn AttributeError ''App object has no attribute speaker''), s)
     | Attr None \<Rightarrow> (Inr (), s)
     | Attr (Some h) \<Rightarrow> async_disconnect lib s)"

text \<open>
  \<open>App.event_receiver\<close>. \<open>self.events.append(event)\<close> needs the attribute; \<open>del
  self.events[0]\<close> removes the first element of a list that is not empty here; the window
  is read after the history has been changed.
\<close>

definition event_receiver :: "'ev \<Rightarrow> 'ev App \<Rightarrow> unit result \<times> 'ev App" where
  "event_receiver event s =
    (case events s of
       Unset \<Rightarrow> (Inl (Exn AttributeError ''App object has no attribute events''), s)
     | Attr h \<Rightarrow>
         (let h1 = h @ [event];
              trunc = (length h1 > 1000);
              s1 = s\<lparr>events := Attr (if trunc then tl h1 else h1)\<rparr>
          in case gui s1 of
               Unset \<Rightarrow> (Inl (Exn AttributeError ''App object has no attribute gui''), s1)
             | Attr calls \<Rightarrow> (Inr (), s1\<lparr>gui := Attr (calls @ [(event, trunc)])\<rparr>)))"

text \<open>
  Events delivered one after the other. An exception goes to the caller, the library, and
  the next event is delivered all the same.
\<close>

fun deliver :: "'ev list \<Rightarrow> 'ev App \<Rightarrow> 'ev App" where
  "deliver [] s = s"
| "deliver (e # es) s = deliver es (snd (event_receiver e s))"

section \<open>Add-argument dialog (gui.py)\<close>

text \<open>
  \<open>str.strip()\<close> removes leading and trailing whitespace; among the characters below 256
  these are the code points 9 to 13, 28 to 32, 133 and 160.
\<close>

definition isspace :: "char \<Rightarrow> bool" where
  "isspace c =
    (let n = (of_char c :: nat)
     in (9 \<le> n \<and> n \<le> 13) \<or> (28 \<le> n \<and> n \<le> 32) \<or> n = 133 \<or> n = 160)"

definition strip :: "string \<Rightarrow> string" where
  "strip cs = rev (dropWhile isspace (rev (dropWhile isspace cs)))"

text \<open>\<open>s.split(",")\<close>: always at least one piece; the pieces are not stripped.\<close>

fun split_comma :: "string \<Rightarrow> string list" where
  "split_comma [] = [[]]"
| "split_comma (c # cs) =
    (if c = CHR '','' then [] # split_comma cs
     else (case split_comma cs of
             [] \<Rightarrow> [[c]]
           | p # ps \<Rightarrow> (c # p) # ps))"

text \<open>
  \<open>[int(dec) for dec in pieces]\<close>: the built-in \<open>int\<close> is a parameter, \<open>None\<close> where it
  raises \<open>ValueError\<close>; the comprehension raises at the first such piece.
\<close>

fun int_each :: "(string \<Rightarrow> int option) \<Rightarrow> string list \<Rightarrow> int list option" where
  "int_each py_int [] = Some []"
| "int_each py_int (p # ps) =
    (case py_int p of
       None \<Rightarrow> None
     | Some i \<Rightarrow> (case int_each py_int ps of None \<Rightarrow> None | Some js \<Rightarrow> Some (i # js)))"

text \<open>
  The first \<open>try\<close> block of \<open>ArgumentsDialog.add_argument\<close>: the value the entry text
  becomes for the selected type, and the empty string when the conversion raises.
\<close>

definition entered_value :: "(string \<Rightarrow> int option) \<Rightarrow> string \<Rightarrow> string \<Rightarrow> pyval" where
  "entered_value py_int value_type ent_value =
    (if value_type = ''dec_arr'' then
       (case int_each py_int (split_comma ent_value) of
          Some js \<Rightarrow> PList (map PInt js)
        | None \<Rightarrow> PStr [])
     else if value_type = ''dec'' then
       (case py_int (strip ent_value) of
          Some i \<Rightarrow> PInt i
        | None \<Rightarrow> PStr [])
     else PStr (strip ent_value))"

text \<open>
  The dialog: the result attribute (initially the triple of three empty strings), whether
  the window is still open, and the messages shown in error boxes.
\<close>

record ArgumentsDialog =
  result :: pyval
  is_open :: bool
  shown_errors :: "string list"

definition ArgumentsDialog_init :: ArgumentsDialog where
  "ArgumentsDialog_init =
    \<lparr>result = PTuple [PStr [], PStr [], PStr []], is_open = True, shown_errors = []\<rparr>"

text \<open>\<open>ArgumentsDialog.add_argument\<close>, with the texts of the three widgets as arguments.\<close>

definition add_argument ::
  "(string \<Rightarrow> int option) \<Rightarrow> string \<Rightarrow> string \<Rightarrow> string \<Rightarrow> ArgumentsDialog \<Rightarrow> ArgumentsDialog" where
  "add_argument py_int ent_name ent_value cbx_type d =
    (let args = PTuple [PStr (strip ent_name), entered_value py_int cbx_type ent_value, PStr cbx_type]
     in case validate_api_call_arguments args of
          Inl (Exn c msg) \<Rightarrow> d\<lparr>shown_errors := shown_errors d @ [msg]\<rparr>
        | Inr u \<Rightarrow> d\<lparr>result := args, is_open := False\<rparr>)"

section \<open>Properties\<close>

lemma check_dec_arr_ok: "check_dec_arr vs = Inr () \<longleftrightarrow> list_all isinstance_int vs"
  by (induction vs) auto

subsection \<open>Validation of API calls\<close>

lemma validate_api_call_iff:
  "validate_api_call c = Inr () \<longleftrightarrow>
     spec_other_fields_ok c \<and> isinstance_int (timeout_multiple c)
     \<and> int_value (timeout_multiple c) \<le> 5"
  by (auto simp: validate_api_call_def spec_other_fields_ok_def)

text \<open>
  Claim C6. For every API call whose other fields pass validation, the call with
  \<open>timeout_multiple = 6\<close> is rejected (with the error for a too high multiple), the call
  with \<open>timeout_multiple = 5\<close> is accepted, and an integer multiple is accepted exactly when
  it is at most 5, so 5 is the largest accepted integer.
\<close>

theorem timeout_multiple_boundary:
  "spec_other_fields_ok c \<Longrightarrow>
     validate_api_call (c\<lparr>timeout_multiple := PInt 6\<rparr>)
       = Inl (Exn ValueError ''timeout_multiple is too high.'')
   \<and> validate_api_call (c\<lparr>timeout_multiple := PInt 5\<rparr>) = Inr ()
   \<and> (\<forall>n. validate_api_call (c\<lparr>timeout_multiple := PInt n\<rparr>) = Inr () \<longleftrightarrow> n \<le> 5)"
  by (auto simp: validate_api_call_def spec_other_fields_ok_def)

theorem timeout_multiple_boundary_witness:
  "spec_other_fields_ok \<lparr>api_type = PStr ''UIC'', method_name = PStr ''GetVolume'',
      pwron = PBool False, args = PList [], expected_response = PStr [],
      user_check = PBool False, timeout_multiple = PInt 1\<rparr>
   \<and> validate_api_call \<lparr>api_type = PStr ''UIC'', method_name = PStr ''GetVolume'',
      pwron = PBool False, args = PList [], expected_response = PStr [],
      user_check = PBool False, timeout_multiple = PInt 6\<rparr>
       = Inl (Exn ValueError ''timeout_multiple is too high.'')
   \<and> validate_api_call \<lparr>api_type = PStr ''UIC'', method_name = PStr ''GetVolume'',
      pwron = PBool False, args = PList [], expected_response = PStr [],
      user_check = PBool False, timeout_multiple = PInt 5\<rparr>
       = Inr ()"
proof -
  let ?c = "\<lparr>api_type = PStr ''UIC'', method_name = PStr ''GetVolume'',
      pwron = PBool False, args = PList [], expected_response = PStr [],
      user_check = PBool False, timeout_multiple = PInt 1\<rparr>"
  have h: "spec_other_fields_ok ?c" by (simp add: spec_other_fields_ok_def)
  show ?thesis using h timeout_multiple_boundary [OF h] by simp
qed

lemma validate_arguments_iff:
  "validate_api_call_arguments a = Inr () \<longleftrightarrow> spec_argument_ok a"
proof (cases a)
  case (PTuple vs)
  show ?thesis
  proof (cases vs)
    case Nil
    with PTuple show ?thesis by (simp add: spec_argument_ok_def)
  next
    case (Cons a0 r0)
    note c0 = this
    show ?thesis
    proof (cases r0)
      case Nil
      with PTuple c0 show ?thesis by (simp add: spec_argument_ok_def split: pyval.splits)
    next
      case (Cons a1 r1)
      note c1 = this
      show ?thesis
      proof (cases r1)
        case Nil
        with PTuple c0 c1 show ?thesis
          by (simp add: spec_argument_ok_def split: pyval.splits)
      next
        case (Cons a2 r2)
        note c2 = this
        show ?thesis
        proof (cases r2)
          case Nil
          with PTuple c0 c1 c2 show ?thesis
            apply (cases a0; cases a2; cases a1)
            apply (auto simp: spec_argument_ok_def spec_shape_matches_def check_dec_arr_ok)
            done
        next
          case (Cons a3 r3)
          with PTuple c0 c1 c2 show ?thesis
            by (simp add: spec_argument_ok_def split: pyval.splits list.splits)
        qed
      qed
    qed
  qed
qed (simp_all add: spec_argument_ok_def)

text \<open>
  Claim C7. \<open>validate_api_call_arguments\<close> accepts a value exactly when it is a tuple of
  three elements with a non-empty string name, a declared type among \<open>str\<close>, \<open>dec\<close>,
  \<open>cdata\<close>, \<open>dec_arr\<close>, and a value whose runtime shape matches the declared type (an
  \<open>int\<close> instance for \<open>dec\<close>, a string for \<open>str\<close> and \<open>cdata\<close>, a list of \<open>int\<close> instances
  for \<open>dec_arr\<close>). The triples \<open>("vol", 10, "dec")\<close> and \<open>("x", [1,2,3], "dec_arr")\<close> are
  accepted; \<open>("vol", "10", "dec")\<close> and \<open>("x", [1,"a"], "dec_arr")\<close> are rejected. As in
  Python, a \<open>bool\<close> is an \<open>int\<close> instance.
\<close>

theorem validate_arguments_characterised:
  "(validate_api_call_arguments a = Inr () \<longleftrightarrow> spec_argument_ok a)
   \<and> validate_api_call_arguments (PTuple [PStr ''vol'', PInt 10, PStr ''dec'']) = Inr ()
   \<and> validate_api_call_arguments (PTuple [PStr ''x'', PList [PInt 1, PInt 2, PInt 3], PStr ''dec_arr''])
       = Inr ()
   \<and> validate_api_call_arguments (PTuple [PStr ''vol'', PStr ''10'', PStr ''dec''])
       = Inl (Exn TypeError ''Argument value is not an integer.'')
   \<and> validate_api_call_arguments (PTuple [PStr ''x'', PList [PInt 1, PStr ''a''], PStr ''dec_arr''])
       = Inl (Exn TypeError ''Argument value is not a list of integers.'')"
  using validate_arguments_iff [of a] by simp

theorem validate_arguments_characterised_witness:
  "spec_argument_ok (PTuple [PStr ''name'', PStr ''value'', PStr ''cdata''])
   \<and> validate_api_call_arguments (PTuple [PStr ''name'', PStr ''value'', PStr ''cdata'']) = Inr ()"
proof -
  have h: "spec_argument_ok (PTuple [PStr ''name'', PStr ''value'', PStr ''cdata''])"
    by (simp add: spec_argument_ok_def spec_shape_matches_def)
  show ?thesis
    using h validate_arguments_characterised
      [of "PTuple [PStr ''name'', PStr ''value'', PStr ''cdata'']"]
    by blast
qed

subsection \<open>Settings store\<close>

lemma json_ok_items_update:
  "json_ok v \<Longrightarrow> json_ok_items kvs \<Longrightarrow> json_ok_items (AList.update k v kvs)"
  by (induction kvs) auto

lemma map_of_update_same: "map_of (AList.update k v kvs) k = Some v"
  by (simp add: update_conv')

lemma hosts_ok_dict: "hosts w s = Inr hs \<Longrightarrow> \<exists>kvs. current w s = PDict kvs"
  by (cases "current w s") (auto simp: hosts_def dict_get_def)

text \<open>
  The tail shared by the setters of \<open>default_host\<close> and \<open>loglevel\<close>: the document is
  changed in memory first and written out in the same call.
\<close>

lemma stored_and_saved:
  assumes "current w s = PDict kvs" "isinstance_int v"
  shows "(case (let (w1, s1) = mutate (PDict (AList.update k v kvs)) w s;
                    (r, w2) = save_settings w1 s1 in (r, w2, s1)) of
            (r, w', s') \<Rightarrow>
              current w' s' = PDict (AList.update k v kvs)
              \<and> (writable w \<and> json_ok (current w s) \<longrightarrow>
                   r = Inr () \<and> settings_file w' = Holds (json_value (current w' s')))
              \<and> (\<not> writable w \<longrightarrow>
                   r = Inl (Exn OSError ''Permission denied'')
                   \<and> settings_file w' = settings_file w))"
proof -
  have v: "json_ok v" using assms(2) by (cases v) auto
  show ?thesis using assms(1) v
    by (cases s) (auto simp: mutate_def save_settings_def current_def json_ok_items_update)
qed

text \<open>The first load of a process, before any setter has run.\<close>

lemma load_missing_at_import:
  "load_settings (at_import Missing wr) s = SharedDefault
   \<and> current (at_import Missing wr) (load_settings (at_import Missing wr) s)
        = DEFAULT_SETTINGS_literal
   \<and> hosts (at_import Missing wr) (load_settings (at_import Missing wr) s)
        = Inr [Host (PStr ''Speaker'') (PStr ''192.168.1.100'') (PInt 55001)]
   \<and> default_host (at_import Missing wr) (load_settings (at_import Missing wr) s) = Inr (PInt 0)
   \<and> loglevel (at_import Missing wr) (load_settings (at_import Missing wr) s) = Inr (PInt 1)"
  by (simp add: load_settings_def at_import_def current_def DEFAULT_SETTINGS_literal_def
      hosts_def dict_get_def iterate_def make_Host_def default_host_def loglevel_def)

text \<open>A file that cannot be read or decoded gives the error document.\<close>

lemma load_malformed:
  "settings_file w = Malformed msg \<or> settings_file w = Unreadable msg \<Longrightarrow>
     load_settings w s = Own (PDict [(''ERROR'', PStr msg)])
   \<and> error w (load_settings w s) = Inr (PStr msg)
   \<and> hosts w (load_settings w s) = Inr []
   \<and> default_host w (load_settings w s) = Inr (PInt 0)
   \<and> loglevel w (load_settings w s) = Inr (PInt 1)"
  by (auto simp add: load_settings_def current_def error_def
      hosts_def dict_get_def iterate_def default_host_def loglevel_def)

lemma set_hosts_nonempty_fails:
  assumes "current w s = PDict kvs" "hs \<noteq> []" "writable w"
  shows "fst (set_hosts hs w s) = Inl (Exn TypeError ''Object is not JSON serializable'')"
proof -
  obtain h hs' where hs: "hs = h # hs'" using assms(2) by (cases hs) auto
  have "\<not> json_ok_items
          (AList.update ''hosts'' (PList (PObj ''method'' # map (\<lambda>h. PObj ''method'') hs')) kvs)"
    by (induction kvs) auto
  then show ?thesis using assms(1,3) hs
    by (cases s)
       (auto simp: set_hosts_def dict_setitem_def mutate_def save_settings_def current_def)
qed

text \<open>
  Claim C3. Every mutating setter updates the document in memory and writes it to the
  settings file in the same call, and setting \<open>hosts\<close> to a list of presets persists a
  document from which the \<open>hosts\<close> accessor reproduces the list. The setter of \<open>hosts\<close>
  does not: with the one default preset on a writable file holding the default document
  it stores a bound method instead of the preset's dict, the encoder raises \<open>TypeError\<close>,
  the file is left with a truncated text, and the \<open>hosts\<close> accessor raises on the
  document left in memory.
\<close>

theorem set_hosts_stores_bound_methods:
  "set_hosts [Host (PStr ''Speaker'') (PStr ''192.168.1.100'') (PInt 55001)]
      (at_import (Holds DEFAULT_SETTINGS_literal) True) (Own DEFAULT_SETTINGS_literal)
   = (Inl (Exn TypeError ''Object is not JSON serializable''),
      \<lparr>DEFAULT_SETTINGS = DEFAULT_SETTINGS_literal,
        settings_file = Malformed ''Expecting value'', writable = True\<rparr>,
      Own (PDict [(''hosts'', PList [PObj ''method'']), (''loglevel'', PInt 1),
                  (''default_host'', PInt 0)]))
   \<and> hosts \<lparr>DEFAULT_SETTINGS = DEFAULT_SETTINGS_literal,
             settings_file = Malformed ''Expecting value'', writable = True\<rparr>
        (Own (PDict [(''hosts'', PList [PObj ''method'']), (''loglevel'', PInt 1),
                     (''default_host'', PInt 0)]))
      = Inl (Exn TypeError ''argument after ** must be a mapping'')"
  by (simp add: set_hosts_def at_import_def current_def DEFAULT_SETTINGS_literal_def
      dict_setitem_def mutate_def save_settings_def hosts_def dict_get_def iterate_def
      make_Host_def)

text \<open>
  Claim C4. A load with the settings file absent yields the built-in default document
  (one host, \<open>default_host = 0\<close>, \<open>loglevel = 1\<close>), and a load of a malformed file yields
  the error document, on which \<open>hosts\<close> is empty and the other accessors give 0 and 1.
  The second half holds (\<open>load_malformed\<close>), and so does the first for the first load of a
  process (\<open>load_missing_at_import\<close>). But the load binds the instance to the module's
  \<open>DEFAULT_SETTINGS\<close> dict itself and the setters change that dict in place: after a load
  without a file and \<open>loglevel = 3\<close>, a load that again finds no file yields a document
  with \<open>loglevel = 3\<close>.
\<close>

theorem load_missing_after_setter:
  "(let w0 = at_import Missing True;
        s0 = load_settings w0 Settings_init;
        (r, w1, s1) = set_loglevel (PInt 3) w0 s0;
        w2 = w1\<lparr>settings_file := Missing\<rparr>;
        s2 = load_settings w2 Settings_init
    in r = Inr () \<and> loglevel w2 s2 = Inr (PInt 3)
       \<and> current w2 s2 \<noteq> DEFAULT_SETTINGS_literal)"
  by (simp add: at_import_def load_settings_def Settings_init_def set_loglevel_def current_def
      DEFAULT_SETTINGS_literal_def dict_setitem_def mutate_def save_settings_def loglevel_def
      dict_get_def)

text \<open>
  Claim C5. For an integer outside \<open>[0, len(hosts))\<close> the setter of \<open>default_host\<close> raises
  and leaves the document, the file and hence every accessor unchanged (also when the
  \<open>hosts\<close> accessor itself raises); for an integer outside \<open>[0, 4]\<close> the setter of
  \<open>loglevel\<close> does the same. A value inside the range is stored: the accessor returns it
  afterwards, and the call returns normally when the file can be written. For \<open>loglevel\<close>
  the document has to be a JSON object, as the data model says; for \<open>default_host\<close> that
  follows from \<open>hosts\<close> having a length.
\<close>

theorem setters_validate:
  "isinstance_int v \<Longrightarrow>
   (int_value v < 0 \<or> (hosts w s = Inr hs \<and> int (length hs) \<le> int_value v) \<longrightarrow>
      set_default_host v w s
        = (Inl (Exn ValueError ''Default host must be one of the hosts''), w, s))
   \<and> (0 \<le> int_value v \<and> hosts w s = Inl e \<longrightarrow> set_default_host v w s = (Inl e, w, s))
   \<and> (hosts w s = Inr hs \<and> 0 \<le> int_value v \<and> int_value v < int (length hs) \<longrightarrow>
        (case set_default_host v w s of
           (r, w', s') \<Rightarrow> default_host w' s' = Inr v
              \<and> (writable w \<and> json_ok (current w s) \<longrightarrow> r = Inr ())))
   \<and> (int_value v < 0 \<or> 4 < int_value v \<longrightarrow>
        set_loglevel v w s = (Inl (Exn ValueError ''loglevel must be between 0 and 4''), w, s))
   \<and> (0 \<le> int_value v \<and> int_value v \<le> 4 \<and> current w s = PDict kvs \<longrightarrow>
        (case set_loglevel v w s of
           (r, w', s') \<Rightarrow> loglevel w' s' = Inr v
              \<and> (writable w \<and> json_ok (current w s) \<longrightarrow> r = Inr ())))"
proof (intro conjI impI)
  assume iv: "isinstance_int v"
  { assume "int_value v < 0 \<or> (hosts w s = Inr hs \<and> int (length hs) \<le> int_value v)"
    then show "set_default_host v w s
        = (Inl (Exn ValueError ''Default host must be one of the hosts''), w, s)"
      using iv by (auto simp: set_default_host_def) }
  { assume "0 \<le> int_value v \<and> hosts w s = Inl e"
    then show "set_default_host v w s = (Inl e, w, s)"
      using iv by (auto simp: set_default_host_def) }
  { assume a: "hosts w s = Inr hs \<and> 0 \<le> int_value v \<and> int_value v < int (length hs)"
    then obtain kvs' where d: "current w s = PDict kvs'" using hosts_ok_dict by blast
    have eq: "set_default_host v w s =
        (let (w1, s1) = mutate (PDict (AList.update ''default_host'' v kvs')) w s;
             (r, w2) = save_settings w1 s1 in (r, w2, s1))"
      using a iv d by (simp add: set_default_host_def dict_setitem_def)
    show "case set_default_host v w s of
           (r, w', s') \<Rightarrow> default_host w' s' = Inr v
              \<and> (writable w \<and> json_ok (current w s) \<longrightarrow> r = Inr ())"
      using stored_and_saved[OF d iv, of "''default_host''"] unfolding eq
      by (auto simp: default_host_def dict_get_def map_of_update_same split: prod.splits) }
  { assume "int_value v < 0 \<or> 4 < int_value v"
    then show "set_loglevel v w s
        = (Inl (Exn ValueError ''loglevel must be between 0 and 4''), w, s)"
      using iv by (auto simp: set_loglevel_def) }
  { assume a: "0 \<le> int_value v \<and> int_value v \<le> 4 \<and> current w s = PDict kvs"
    then have d: "current w s = PDict kvs" by simp
    have eq: "set_loglevel v w s =
        (let (w1, s1) = mutate (PDict (AList.update ''loglevel'' v kvs)) w s;
             (r, w2) = save_settings w1 s1 in (r, w2, s1))"
      using a iv by (simp add: set_loglevel_def dict_setitem_def)
    show "case set_loglevel v w s of
           (r, w', s') \<Rightarrow> loglevel w' s' = Inr v
              \<and> (writable w \<and> json_ok (current w s) \<longrightarrow> r = Inr ())"
      using stored_and_saved[OF d iv, of "''loglevel''"] unfolding eq
      by (auto simp: loglevel_def dict_get_def map_of_update_same split: prod.splits) }
qed

theorem setters_validate_witness:
  "set_default_host (PInt 1) (at_import (Holds DEFAULT_SETTINGS_literal) True)
       (Own DEFAULT_SETTINGS_literal)
     = (Inl (Exn ValueError ''Default host must be one of the hosts''),
        at_import (Holds DEFAULT_SETTINGS_literal) True, Own DEFAULT_SETTINGS_literal)
   \<and> fst (set_default_host (PInt 0) (at_import (Holds DEFAULT_SETTINGS_literal) True)
        (Own DEFAULT_SETTINGS_literal)) = Inr ()
   \<and> set_loglevel (PInt 5) (at_import (Holds DEFAULT_SETTINGS_literal) True)
       (Own DEFAULT_SETTINGS_literal)
     = (Inl (Exn ValueError ''loglevel must be between 0 and 4''),
        at_import (Holds DEFAULT_SETTINGS_literal) True, Own DEFAULT_SETTINGS_literal)
   \<and> fst (set_loglevel (PInt 4) (at_import (Holds DEFAULT_SETTINGS_literal) True)
        (Own DEFAULT_SETTINGS_literal)) = Inr ()"
proof -
  let ?w = "at_import (Holds DEFAULT_SETTINGS_literal) True"
  let ?s = "Own DEFAULT_SETTINGS_literal"
  let ?hs = "[Host (PStr ''Speaker'') (PStr ''192.168.1.100'') (PInt 55001)]"
  let ?kvs = "[(''hosts'', PList [PDict [(''name'', PStr ''Speaker''),
                                         (''host'', PStr ''192.168.1.100''),
                                         (''port'', PInt 55001)]]),
               (''loglevel'', PInt 1),
               (''default_host'', PInt 0)]"
  have h: "hosts ?w ?s = Inr ?hs"
    by (simp add: hosts_def current_def DEFAULT_SETTINGS_literal_def dict_get_def iterate_def
        make_Host_def)
  have c: "current ?w ?s = DEFAULT_SETTINGS_literal" by (simp add: current_def)
  have j: "json_ok (current ?w ?s)" unfolding c by (simp add: DEFAULT_SETTINGS_literal_def)
  have wr: "writable ?w" by (simp add: at_import_def)
  have d: "current ?w ?s = PDict ?kvs" unfolding c by (simp add: DEFAULT_SETTINGS_literal_def)
  have a: "set_default_host (PInt 1) ?w ?s
      = (Inl (Exn ValueError ''Default host must be one of the hosts''), ?w, ?s)"
    using setters_validate [where v="PInt 1" and w="?w" and s="?s" and hs="?hs"
        and e="Exn OSError []" and kvs="?kvs"] h
    by simp
  have b: "fst (set_default_host (PInt 0) ?w ?s) = Inr ()"
    using setters_validate [where v="PInt 0" and w="?w" and s="?s" and hs="?hs"
        and e="Exn OSError []" and kvs="?kvs"] h j wr
    by (auto split: prod.splits)
  have e: "set_loglevel (PInt 5) ?w ?s
      = (Inl (Exn ValueError ''loglevel must be between 0 and 4''), ?w, ?s)"
    using setters_validate [where v="PInt 5" and w="?w" and s="?s" and hs="?hs"
        and e="Exn OSError []" and kvs="?kvs"]
    by simp
  have f: "fst (set_loglevel (PInt 4) ?w ?s) = Inr ()"
    using setters_validate [where v="PInt 4" and w="?w" and s="?s" and hs="?hs"
        and e="Exn OSError []" and kvs="?kvs"] d j wr
    by (auto split: prod.splits)
  show ?thesis using a b e f by simp
qed

subsection \<open>Event history\<close>

lemma event_receiver_unset:
  "events s = Unset \<Longrightarrow>
     event_receiver e s = (Inl (Exn AttributeError ''App object has no attribute events''), s)"
  by (simp add: event_receiver_def)

lemma deliver_unset: "events s = Unset \<Longrightarrow> deliver es s = s"
  by (induction es) (simp_all add: event_receiver_unset)

text \<open>
  On a history that exists, the receiver appends, evicts the first event when the history
  was full, passes that as the flag, and so keeps the bound of 1000 over any sequence of
  events.
\<close>

lemma event_receiver_set:
  assumes "events s = Attr h" "gui s = Attr c"
  shows "event_receiver e s =
     (Inr (), s\<lparr>events := Attr (if length h \<ge> 1000 then tl (h @ [e]) else h @ [e]),
                gui := Attr (c @ [(e, length h \<ge> 1000)])\<rparr>)"
  using assms by (auto simp: event_receiver_def Let_def)

lemma event_receiver_bounded:
  assumes "events s = Attr h" "length h \<le> 1000"
  shows "\<exists>h'. events (snd (event_receiver e s)) = Attr h' \<and> length h' \<le> 1000"
proof (cases "gui s")
  case Unset
  then show ?thesis using assms by (simp add: event_receiver_def Let_def)
next
  case (Attr c)
  then show ?thesis using assms by (simp add: event_receiver_def Let_def)
qed

lemma deliver_bounded:
  "events s = Attr h \<Longrightarrow> length h \<le> 1000 \<Longrightarrow>
     \<exists>h'. events (deliver es s) = Attr h' \<and> length h' \<le> 1000"
proof (induction es arbitrary: s h)
  case Nil
  then show ?case by simp
next
  case (Cons e es)
  obtain h1 where h1: "events (snd (event_receiver e s)) = Attr h1" "length h1 \<le> 1000"
    using event_receiver_bounded[OF Cons.prems] by blast
  show ?case using Cons.IH[OF h1] by simp
qed

text \<open>
  Claim C1. For every sequence of events delivered to the event receiver the history
  holds at most 1000 events, evicting the oldest first, so that 1001 appends leave 1000
  events, and the flag passed to the window is true exactly on the evicting appends.
  On a history that exists this is what the receiver does (\<open>event_receiver_set\<close>,
  \<open>deliver_bounded\<close>). But nothing in the program ever assigns the history: on the
  mediator as constructed (with its window set, as \<open>run\<close> does) every delivery raises
  \<open>AttributeError\<close>, no event is kept and the window is never notified, whatever the
  sequence of events.
\<close>

theorem fresh_app_keeps_no_history:
  "fst (event_receiver e ((App_init w)\<lparr>gui := Attr calls\<rparr>))
      = Inl (Exn AttributeError ''App object has no attribute events'')
   \<and> events (deliver es ((App_init w)\<lparr>gui := Attr calls\<rparr>)) = Unset
   \<and> gui (deliver es ((App_init w)\<lparr>gui := Attr calls\<rparr>)) = Attr calls"
  by (simp add: event_receiver_unset deliver_unset App_init_def)

subsection \<open>Connecting and disconnecting\<close>

lemma connect_failed_clears:
  "speaker (snd (connect_failed lib e s)) \<noteq> Attr (Some h)"
  by (auto simp: connect_failed_def suppress_def split: attr.splits option.splits sum.splits)

lemma connect_failed_reraises:
  "speaker s \<noteq> Unset \<Longrightarrow> fst (connect_failed lib e s) = Inl e"
  by (auto simp: connect_failed_def suppress_def split: attr.splits option.splits sum.splits)

text \<open>After a connect that raised, the mediator holds no handle.\<close>

lemma async_connect_failure:
  assumes "fst (async_connect lib ip p s) = Inl e'"
  shows "speaker (snd (async_connect lib ip p s)) = Unset
         \<or> speaker (snd (async_connect lib ip p s)) = Attr None"
proof -
  have n: "speaker (snd (async_connect lib ip p s)) \<noteq> Attr (Some h)" for h
    using assms connect_failed_clears
    by (auto simp: async_connect_def Let_def split: option.splits)
  show ?thesis
  proof (cases "speaker (snd (async_connect lib ip p s))")
    case Unset
    then show ?thesis by simp
  next
    case (Attr x)
    then show ?thesis using n by (cases x) auto
  qed
qed

text \<open>
  When the attribute has been assigned before, or the constructor returns, a connect that
  raises re-raises what the library raised, whatever the teardown does.
\<close>

lemma async_connect_reraises:
  assumes "speaker s \<noteq> Unset \<or> construct lib = None"
  shows "fst (async_connect lib ip p s) = Inr ()
       \<or> (\<exists>e. fst (async_connect lib ip p s) = Inl e
              \<and> e \<in> set (List.map_filter id
                    [construct lib, register_state lib, register_event lib,
                     do_connect lib, do_update lib]))"
  using assms
  by (cases "construct lib"; cases "register_state lib"; cases "register_event lib";
      cases "do_connect lib"; cases "do_update lib")
     (auto simp: async_connect_def Let_def connect_failed_def suppress_def
           List.map_filter_simps split: attr.splits option.splits)

text \<open>
  Claim C2. For every failure during connect, also one in the construction of the handle,
  the handle is left unset, teardown errors are swallowed and the original failure is
  re-raised. On the first connect of a mediator a failing constructor leaves
  \<open>self.speaker\<close> unassigned, so the test \<open>if self.speaker\<close> in the handler raises
  \<open>AttributeError\<close>, and that is what the caller receives in place of the original
  failure.
\<close>

theorem first_connect_loses_failure:
  "async_connect \<lparr>construct = Some (Exn OSError ''Network is unreachable''),
        register_state = None, register_event = None, do_connect = None, do_update = None,
        client_disconnect = None\<rparr> ''192.168.1.100'' 55001
        (App_init (at_import Missing True) :: nat App)
     = (Inl (Exn AttributeError ''App object has no attribute speaker''),
        App_init (at_import Missing True))
   \<and> speaker (App_init (at_import Missing True) :: nat App) = Unset"
  by (simp add: async_connect_def connect_failed_def App_init_def)

text \<open>
  Claim C8. \<open>disconnect\<close> never raises and is idempotent: from every state of the
  mediator, whether the handle attribute does not exist, holds \<open>None\<close> or holds a handle,
  and whatever closing the handle raises, it returns normally with the handle cleared,
  and running it again returns normally and leaves that state as it is.
\<close>

theorem disconnect_idempotent:
  "fst (async_disconnect lib s) = Inr ()
   \<and> speaker (snd (async_disconnect lib s)) = Attr None
   \<and> async_disconnect lib' (snd (async_disconnect lib s))
       = (Inr (), snd (async_disconnect lib s))"
  by (simp add: async_disconnect_def suppress_def split: sum.splits)

text \<open>
  Claim C10. The constructor assigns neither the event history nor the session handle,
  which the class only annotates. So on a mediator as constructed, with or without its
  window, the event receiver raises \<open>AttributeError\<close> and changes nothing, and the check
  of the handle at the end of \<open>run\<close> raises \<open>AttributeError\<close> when no connect has assigned
  it.
\<close>

theorem fresh_app_attributes_unset:
  "speaker (App_init w) = Unset
   \<and> events (App_init w) = Unset
   \<and> event_receiver e ((App_init w)\<lparr>gui := g\<rparr>)
       = (Inl (Exn AttributeError ''App object has no attribute events''),
          (App_init w)\<lparr>gui := g\<rparr>)
   \<and> run_after_show lib ((App_init w)\<lparr>gui := g\<rparr>)
       = (Inl (Exn AttributeError ''App object has no attribute speaker''),
          (App_init w)\<lparr>gui := g\<rparr>)"
  by (simp add: App_init_def event_receiver_def run_after_show_def)

subsection \<open>Add-argument dialog\<close>

lemma int_each_None:
  "p \<in> set ps \<Longrightarrow> py_int p = None \<Longrightarrow> int_each py_int ps = None"
  by (induction ps) (auto split: option.splits)

text \<open>
  Claim C9. When the value entered in the add-argument dialog cannot be parsed as the
  selected numeric type needs (an unparsable integer for \<open>dec\<close>, a comma-separated list
  with an unparsable piece for \<open>dec_arr\<close>), the dialog replaces the value by the empty
  string before validation instead of rejecting it there; the validation then rejects
  the triple (with the shape error when the name is not empty, with the name error
  otherwise), an error box is shown, and the result and the window are left as they
  were: no argument is added with the coerced empty value. The built-in \<open>int\<close> is a
  parameter of the model, so this holds for every parser.
\<close>

theorem unparsable_value_rejected:
  assumes "(cbx_type = ''dec'' \<and> py_int (strip ent_value) = None)
         \<or> (cbx_type = ''dec_arr'' \<and> (\<exists>p \<in> set (split_comma ent_value). py_int p = None))"
  shows "entered_value py_int cbx_type ent_value = PStr []
   \<and> (\<exists>msg. add_argument py_int ent_name ent_value cbx_type d
               = d\<lparr>shown_errors := shown_errors d @ [msg]\<rparr>)
   \<and> result (add_argument py_int ent_name ent_value cbx_type d) = result d
   \<and> is_open (add_argument py_int ent_name ent_value cbx_type d) = is_open d
   \<and> (strip ent_name \<noteq> [] \<longrightarrow>
        validate_api_call_arguments (PTuple [PStr (strip ent_name), PStr [], PStr cbx_type])
          = Inl (Exn TypeError (if cbx_type = ''dec'' then ''Argument value is not an integer.''
                                else ''Argument value is not a list.'')))"
proof -
  have v: "entered_value py_int cbx_type ent_value = PStr []"
    using assms by (auto simp: entered_value_def int_each_None)
  have t: "cbx_type = ''dec'' \<or> cbx_type = ''dec_arr''" using assms by auto
  obtain c msg where r:
    "validate_api_call_arguments (PTuple [PStr (strip ent_name), PStr [], PStr cbx_type])
       = Inl (Exn c msg)"
    using t by (cases "strip ent_name = []") auto
  have a: "add_argument py_int ent_name ent_value cbx_type d
             = d\<lparr>shown_errors := shown_errors d @ [msg]\<rparr>"
    using v r by (simp add: add_argument_def)
  have e: "strip ent_name \<noteq> [] \<longrightarrow>
        validate_api_call_arguments (PTuple [PStr (strip ent_name), PStr [], PStr cbx_type])
          = Inl (Exn TypeError (if cbx_type = ''dec'' then ''Argument value is not an integer.''
                                else ''Argument value is not a list.''))"
    using t by auto
  show ?thesis using v a e by auto
qed

theorem unparsable_value_rejected_witness:
  "add_argument (\<lambda>s. if s = ''10'' then Some 10 else None) ''vol'' ''ten'' ''dec''
      ArgumentsDialog_init
    = ArgumentsDialog_init\<lparr>shown_errors := [''Argument value is not an integer.'']\<rparr>
   \<and> result (add_argument (\<lambda>s. if s = ''10'' then Some 10 else None) ''vol'' ''ten'' ''dec''
        ArgumentsDialog_init) = PTuple [PStr [], PStr [], PStr []]"
proof -
  let ?f = "\<lambda>s. if s = ''10'' then Some (10::int) else None"
  have h: "(''dec'' = ''dec'' \<and> ?f (strip ''ten'') = None)
         \<or> (''dec'' = ''dec_arr'' \<and> (\<exists>p \<in> set (split_comma ''ten''). ?f p = None))"
    by (simp add: strip_def isspace_def)
  have n: "strip ''vol'' = ''vol''" by (simp add: strip_def isspace_def)
  show ?thesis
    using unparsable_value_rejected [OF h, of "''vol''" ArgumentsDialog_init] n
    by (auto simp: ArgumentsDialog_init_def add_argument_def)
qed

end
